theory Spec2Isabelle
  imports Complex_Main
begin

section \<open>Solar plant efficiency analyzer: model of app.py\<close>

text \<open>
  The script reads a panel configuration from the sidebar, two uploaded CSV tables
  (irradiance and actual generation), merges them on the column Month, derives the
  expected generation and the monthly efficiency of every merged row, sums the totals,
  draws two charts and lays the result out as a paginated PDF.

  Scope of the model.
  \<^item> A parsed table is a list of column names and a list of rows. The cells of the
    column Month are text; every other cell is a finite number (what \<open>read_csv\<close> yields
    for a numeric column). Finite numbers are reals: rounding and overflow of binary
    floating point are not modelled.
  \<^item> A quotient can leave the finite numbers (numpy division by zero gives inf or nan
    and does not raise), so the results of divisions live in \<open>float64\<close> below. The
    sign of a zero is not modelled: a zero divisor counts as \<open>+0\<close>, so the sign of an
    infinite quotient is that of the dividend.
  \<^item> The tables are taken as parsed: errors of \<open>read_csv\<close> itself are not modelled.
  \<^item> pandas, matplotlib and reportlab are libraries: their calls are modelled by what
    they are documented to do, and drawing is recorded as data (bars, points, draw
    operations with their coordinates) instead of pixels and bytes. Number formatting in
    the f-strings is not modelled: a drawn line carries the values it formats.
  \<^item> A table without data rows has columns of no numeric type in pandas; statements
    that a report is produced from an empty join are made for tables with data rows.
\<close>

subsection \<open>Numbers\<close>

datatype float64 = Fin real | PInf | NInf | NaN

text \<open>numpy true division of two finite numbers: a zero divisor does not raise.\<close>

definition truediv :: "real \<Rightarrow> real \<Rightarrow> float64" where
  "truediv a b =
     (if b \<noteq> 0 then Fin (a / b)
      else if 0 < a then PInf
      else if a < 0 then NInf
      else NaN)"

text \<open>Multiplication and division of a possibly non-finite value by a finite constant.\<close>

fun fmul :: "float64 \<Rightarrow> real \<Rightarrow> float64" where
  "fmul (Fin x) c = Fin (x * c)"
| "fmul PInf c = (if 0 < c then PInf else if c < 0 then NInf else NaN)"
| "fmul NInf c = (if 0 < c then NInf else if c < 0 then PInf else NaN)"
| "fmul NaN c = NaN"

fun fdiv :: "float64 \<Rightarrow> real \<Rightarrow> float64" where
  "fdiv (Fin x) c = truediv x c"
| "fdiv PInf c = (if 0 \<le> c then PInf else NInf)"
| "fdiv NInf c = (if 0 \<le> c then NInf else PInf)"
| "fdiv NaN c = NaN"

text \<open>\<open>np.clip(x, lo, hi)\<close> is \<open>minimum(maximum(x, lo), hi)\<close>; nan stays nan.\<close>

fun clip :: "float64 \<Rightarrow> real \<Rightarrow> real \<Rightarrow> float64" where
  "clip (Fin x) lo hi = Fin (min (max x lo) hi)"
| "clip PInf lo hi = Fin hi"
| "clip NInf lo hi = Fin (min lo hi)"
| "clip NaN lo hi = NaN"


subsection \<open>Sidebar configuration (lines 14-29)\<close>

record config =
  plant_name :: string
  project_code :: string
  address :: string
  panel_power :: int
  efficiency :: real
  num_panels :: int
  length_m :: real
  width_m :: real

definition panel_area :: "config \<Rightarrow> real" where
  "panel_area cfg = length_m cfg * width_m cfg"

subsection \<open>Tables and \<open>pd.merge(irradiance_df, generation_df, on="Month")\<close> (line 45)\<close>

text \<open>
  A row carries its Month label and its numeric cells by column name. Only the names
  listed in \<open>columns\<close> are columns of the table: \<open>num\<close> is never read at another name,
  and \<open>month\<close> is never read when Month is not a column.
\<close>

record row =
  month :: string
  num :: "string \<Rightarrow> real"

record frame =
  columns :: "string list"
  rows :: "row list"

datatype side = LeftFrame | RightFrame

text \<open>
  Column names of the merged table with the cell each one reads. The key column stays
  where the left table has it; a name other than the key that both tables use gets the
  suffix \<open>_x\<close> on the left and \<open>_y\<close> on the right; the right table's key column is left out.
\<close>

definition merged_names :: "string list \<Rightarrow> string list \<Rightarrow> (string \<times> side \<times> string) list" where
  "merged_names lc rc =
     map (\<lambda>c. (if c \<noteq> ''Month'' \<and> c \<in> set rc then c @ ''_x'' else c, LeftFrame, c)) lc @
     map (\<lambda>c. (if c \<in> set lc then c @ ''_y'' else c, RightFrame, c))
       (filter (\<lambda>c. c \<noteq> ''Month'') rc)"

definition merge_row :: "(string \<times> side \<times> string) list \<Rightarrow> row \<Rightarrow> row \<Rightarrow> row" where
  "merge_row names l r =
     \<lparr>month = month l,
      num = (\<lambda>n. case map_of names n of
                   Some (LeftFrame, c) \<Rightarrow> num l c
                 | Some (RightFrame, c) \<Rightarrow> num r c
                 | None \<Rightarrow> 0)\<rparr>"

text \<open>
  Inner join, \<open>sort=False\<close>: the left rows in their order, each one paired with the right
  rows of the same key in the right table's order.
\<close>

definition join_pairs :: "row list \<Rightarrow> row list \<Rightarrow> (row \<times> row) list" where
  "join_pairs ls rs =
     concat (map (\<lambda>l. map (\<lambda>r. (l, r)) (filter (\<lambda>r. month r = month l) rs)) ls)"

datatype exn = KeyError string | MergeError

text \<open>
  pandas refuses a merge whose suffixes produce a column name twice (MergeError).
\<close>

definition pd_merge :: "frame \<Rightarrow> frame \<Rightarrow> exn + frame" where
  "pd_merge left right =
     (let names = merged_names (columns left) (columns right) in
      if \<not> distinct (map fst names) then Inl MergeError
      else Inr \<lparr>columns = map fst names,
                rows = map (\<lambda>(l, r). merge_row names l r)
                         (join_pairs (rows left) (rows right))\<rparr>)"

subsection \<open>Per-row derivation and totals (lines 46-51)\<close>

record merged_row =
  period :: string
  irradiance :: real
  actualGeneration :: real
  expectedGeneration :: real
  monthlyEfficiency :: float64

definition ExpectedGeneration :: "config \<Rightarrow> real \<Rightarrow> real" where
  "ExpectedGeneration cfg irr =
     (efficiency cfg / 100) * real_of_int (num_panels cfg) * panel_area cfg * irr"

definition MonthlyEfficiency :: "real \<Rightarrow> real \<Rightarrow> float64" where
  "MonthlyEfficiency actual expected = fmul (truediv actual expected) 100"

definition derive_row :: "config \<Rightarrow> row \<Rightarrow> merged_row" where
  "derive_row cfg r =
     (let e = ExpectedGeneration cfg (num r ''Irradiance'') in
      \<lparr>period = month r,
       irradiance = num r ''Irradiance'',
       actualGeneration = num r ''ActualGeneration'',
       expectedGeneration = e,
       monthlyEfficiency = MonthlyEfficiency (num r ''ActualGeneration'') e\<rparr>)"

text \<open>
  \<open>df["Irradiance"]\<close> (line 46) and \<open>df["ActualGeneration"]\<close> (line 47) raise KeyError
  when the merged table has no such column, in this order.
\<close>

definition derive :: "config \<Rightarrow> frame \<Rightarrow> exn + merged_row list" where
  "derive cfg df =
     (if ''Irradiance'' \<notin> set (columns df) then Inl (KeyError ''Irradiance'')
      else if ''ActualGeneration'' \<notin> set (columns df) then Inl (KeyError ''ActualGeneration'')
      else Inr (map (derive_row cfg) (rows df)))"

definition total_expected :: "merged_row list \<Rightarrow> real" where
  "total_expected df = sum_list (map expectedGeneration df)"

definition total_actual :: "merged_row list \<Rightarrow> real" where
  "total_actual df = sum_list (map actualGeneration df)"

definition overall_eff :: "merged_row list \<Rightarrow> float64" where
  "overall_eff df = fmul (truediv (total_actual df) (total_expected df)) 100"

subsection \<open>Charts (lines 55-88)\<close>

datatype colour = DarkBlue | Purple | Black | Red | RdYlGn_r float64

record bar =
  bar_x :: string
  bar_height :: real
  bar_colour :: colour

record label =
  label_x :: string
  label_y :: real
  label_value :: real
  label_colour :: colour

record generation_chart =
  expected_bars :: "bar list"
  actual_bars :: "bar list"
  labels :: "label list"

definition actual_colour :: "float64 \<Rightarrow> colour" where
  "actual_colour eff = RdYlGn_r (clip (fdiv eff 100) 0 1)"

definition generation_plot :: "merged_row list \<Rightarrow> generation_chart" where
  "generation_plot df =
     \<lparr>expected_bars =
        map (\<lambda>r. \<lparr>bar_x = period r, bar_height = expectedGeneration r, bar_colour = DarkBlue\<rparr>) df,
      actual_bars =
        map (\<lambda>r. \<lparr>bar_x = period r, bar_height = actualGeneration r,
                  bar_colour = actual_colour (monthlyEfficiency r)\<rparr>) df,
      labels =
        concat (map (\<lambda>r.
          [\<lparr>label_x = period r, label_y = expectedGeneration r + 2,
            label_value = expectedGeneration r, label_colour = Black\<rparr>,
           \<lparr>label_x = period r, label_y = actualGeneration r + 2,
            label_value = actualGeneration r, label_colour = Red\<rparr>]) df)\<rparr>"

definition efficiency_plot :: "merged_row list \<Rightarrow> (string \<times> float64) list" where
  "efficiency_plot df = map (\<lambda>r. (period r, monthlyEfficiency r)) df"

subsection \<open>PDF report (lines 91-152)\<close>

text \<open>
  The page size is reportlab's A4, \<open>(210*mm, 297*mm)\<close> with \<open>mm = 72/25.4\<close> points;
  line 93 binds its second component to \<open>height\<close>.
\<close>

definition height :: real where
  "height = 297 * 72 / 25.4"

datatype item =
    Title
  | PlantName string
  | ProjectCode string
  | Address string
  | PanelPower int
  | PanelEfficiency real
  | NumberOfPanels int
  | PanelArea real
  | TotalExpected real
  | TotalActual real
  | OverallEfficiency float64
  | MonthlyDetails
  | TableHeader
  | TableLine merged_row

datatype image = GenerationChart generation_chart | EfficiencyChart "(string \<times> float64) list"

datatype draw =
    SetFont string nat
  | DrawString real real item
  | Line real real real real
  | DrawImage image real real real real

text \<open>
  Lines 95-131: the heading block. The cursor starts at \<open>height - 40\<close> and is lowered
  after each line by 30, 15, 15, 30, 15, 15, 15, 30, 15, 15, 30, 20, 15 and 10 points,
  which leaves it at \<open>height - 310\<close> for the first table row.
\<close>

definition heading :: "config \<Rightarrow> merged_row list \<Rightarrow> draw list" where
  "heading cfg df =
     [SetFont ''Helvetica-Bold'' 14,
      DrawString 50 (height - 40) Title,
      SetFont ''Helvetica'' 11,
      DrawString 50 (height - 70) (PlantName (plant_name cfg)),
      DrawString 50 (height - 85) (ProjectCode (project_code cfg)),
      DrawString 50 (height - 100) (Address (address cfg)),
      DrawString 50 (height - 130) (PanelPower (panel_power cfg)),
      DrawString 50 (height - 145) (PanelEfficiency (efficiency cfg)),
      DrawString 50 (height - 160) (NumberOfPanels (num_panels cfg)),
      DrawString 50 (height - 175) (PanelArea (panel_area cfg)),
      DrawString 50 (height - 205) (TotalExpected (total_expected df)),
      DrawString 50 (height - 220) (TotalActual (total_actual df)),
      DrawString 50 (height - 235) (OverallEfficiency (overall_eff df)),
      SetFont ''Helvetica-Bold'' 12,
      DrawString 50 (height - 265) MonthlyDetails,
      SetFont ''Helvetica'' 10,
      DrawString 50 (height - 285) TableHeader,
      Line 50 (height - 300) 550 (height - 300)]"

text \<open>
  The canvas: the pages closed by \<open>showPage\<close> so far, the operations of the page being
  drawn, and the script's cursor \<open>y\<close>.
\<close>

record canvas =
  closed :: "draw list list"
  page :: "draw list"
  y :: real

text \<open>Lines 133-139: one table line per merged row, with the page break after the line.\<close>

fun table_loop :: "merged_row list \<Rightarrow> canvas \<Rightarrow> canvas" where
  "table_loop [] c = c"
| "table_loop (r # rs) c =
     (let c1 = c\<lparr>page := page c @ [DrawString 50 (y c) (TableLine r)]\<rparr>;
          c2 = c1\<lparr>y := y c1 - 15\<rparr>
      in if y c2 < 100
         then table_loop rs \<lparr>closed = closed c2 @ [page c2], page = [], y = height - 50\<rparr>
         else table_loop rs c2)"

text \<open>Lines 141-150: the two chart images, each 400 points below the last cursor.\<close>

definition draw_images :: "merged_row list \<Rightarrow> canvas \<Rightarrow> canvas" where
  "draw_images df c =
     c\<lparr>page := page c @
          [DrawImage (GenerationChart (generation_plot df)) 50 (y c - 400) 500 300,
           DrawImage (EfficiencyChart (efficiency_plot df)) 50 (y c - 400 - 400) 500 300],
       y := y c - 400 - 400\<rparr>"

text \<open>Line 152: \<open>save\<close> closes the page being drawn when it has content.\<close>

definition save :: "canvas \<Rightarrow> draw list list" where
  "save c = (if page c = [] then closed c else closed c @ [page c])"

definition pdf_report :: "config \<Rightarrow> merged_row list \<Rightarrow> draw list list" where
  "pdf_report cfg df =
     save (draw_images df
       (table_loop df \<lparr>closed = [], page = heading cfg df, y = height - 310\<rparr>))"

subsection \<open>The button handler (lines 36-167)\<close>

record report =
  table :: "merged_row list"
  totalExpected :: real
  totalActual :: real
  overallEfficiency :: float64
  generation_fig :: generation_chart
  efficiency_fig :: "(string \<times> float64) list"
  pdf_pages :: "draw list list"

datatype outcome =
    UploadWarning
  | MonthColumnError
  | ProcessingError exn
  | Report report

definition build_report :: "config \<Rightarrow> merged_row list \<Rightarrow> report" where
  "build_report cfg df =
     \<lparr>table = df,
      totalExpected = total_expected df,
      totalActual = total_actual df,
      overallEfficiency = overall_eff df,
      generation_fig = generation_plot df,
      efficiency_fig = efficiency_plot df,
      pdf_pages = pdf_report cfg df\<rparr>"

definition generate_report :: "config \<Rightarrow> frame option \<Rightarrow> frame option \<Rightarrow> outcome" where
  "generate_report cfg irradiance_file generation_file =
     (case (irradiance_file, generation_file) of
        (Some irradiance_df, Some generation_df) \<Rightarrow>
          if ''Month'' \<notin> set (columns irradiance_df) \<or> ''Month'' \<notin> set (columns generation_df)
          then MonthColumnError
          else (case pd_merge irradiance_df generation_df of
                  Inl e \<Rightarrow> ProcessingError e
                | Inr merged \<Rightarrow>
                    (case derive cfg merged of
                       Inl e \<Rightarrow> ProcessingError e
                     | Inr df \<Rightarrow> Report (build_report cfg df)))
      | _ \<Rightarrow> UploadWarning)"

subsection \<open>The scenario of the specification\<close>

definition scenario_config :: config where
  "scenario_config =
     \<lparr>plant_name = ''Plant'', project_code = ''P1'', address = ''Site'',
      panel_power = 400, efficiency = 18, num_panels = 10, length_m = 1.6, width_m = 1\<rparr>"

definition cells :: "(string \<times> real) list \<Rightarrow> string \<Rightarrow> real" where
  "cells kvs c = (case map_of kvs c of Some v \<Rightarrow> v | None \<Rightarrow> 0)"

definition scenario_irradiance :: frame where
  "scenario_irradiance =
     \<lparr>columns = [''Month'', ''Irradiance''],
      rows = [\<lparr>month = ''Jan'', num = cells [(''Irradiance'', 150)]\<rparr>,
              \<lparr>month = ''Feb'', num = cells [(''Irradiance'', 160)]\<rparr>]\<rparr>"

definition scenario_generation :: frame where
  "scenario_generation =
     \<lparr>columns = [''Month'', ''ActualGeneration''],
      rows = [\<lparr>month = ''Jan'', num = cells [(''ActualGeneration'', 500)]\<rparr>,
              \<lparr>month = ''Feb'', num = cells [(''ActualGeneration'', 520)]\<rparr>]\<rparr>"

subsection \<open>Reading the drawn pages\<close>

text \<open>
  The merged rows whose table line a page carries, in drawing order, and the heights at
  which those lines are drawn.
\<close>

fun table_line_of :: "draw \<Rightarrow> merged_row list" where
  "table_line_of (DrawString x v (TableLine r)) = [r]"
| "table_line_of d = []"

definition table_lines :: "draw list \<Rightarrow> merged_row list" where
  "table_lines ds = concat (map table_line_of ds)"

fun table_line_y :: "draw \<Rightarrow> real list" where
  "table_line_y (DrawString x v (TableLine r)) = [v]"
| "table_line_y d = []"

definition table_ys :: "draw list \<Rightarrow> real list" where
  "table_ys ds = concat (map table_line_y ds)"

text \<open>
  A page is a ladder from \<open>start\<close> when its table lines sit at \<open>start\<close>,
  \<open>start - 15\<close>, \<open>start - 30\<close> and so on. The first page starts below the heading,
  every later page at \<open>height - 50\<close>.
\<close>

definition ladder :: "real \<Rightarrow> real list \<Rightarrow> bool" where
  "ladder start vs \<longleftrightarrow> vs = map (\<lambda>i. start - 15 * real i) [0..<length vs]"

fun pages_ok :: "real \<Rightarrow> draw list list \<Rightarrow> bool" where
  "pages_ok first [] = True"
| "pages_ok first (p # ps) =
     (ladder first (table_ys p) \<and> (\<forall>q \<in> set ps. ladder (height - 50) (table_ys q)))"

definition cursor_inv :: "real \<Rightarrow> canvas \<Rightarrow> bool" where
  "cursor_inv first c \<longleftrightarrow>
     pages_ok first (closed c @ [page c]) \<and>
     y c = (if closed c = [] then first else height - 50)
             - 15 * real (length (table_ys (page c)))"

definition within_margins :: "draw list \<Rightarrow> bool" where
  "within_margins p \<longleftrightarrow> (\<forall>v \<in> set (table_ys p). 100 \<le> v \<and> v \<le> height - 50)"

subsection \<open>Further example inputs\<close>

text \<open>
  The rows the scenario derives, and tables that repeat a period, list the periods in
  another order, have a zero irradiance, share no period, or name their columns
  differently.
\<close>

definition jan_row :: merged_row where
  "jan_row = \<lparr>period = ''Jan'', irradiance = 150, actualGeneration = 500,
     expectedGeneration = 432, monthlyEfficiency = Fin (50000 / 432)\<rparr>"

definition repeated_irradiance :: frame where
  "repeated_irradiance =
     \<lparr>columns = [''Month'', ''Irradiance''],
      rows = [\<lparr>month = ''Jan'', num = cells [(''Irradiance'', 150)]\<rparr>,
              \<lparr>month = ''Jan'', num = cells [(''Irradiance'', 160)]\<rparr>]\<rparr>"


definition repeated_generation :: frame where
  "repeated_generation =
     \<lparr>columns = [''Month'', ''ActualGeneration''],
      rows = [\<lparr>month = ''Jan'', num = cells [(''ActualGeneration'', 500)]\<rparr>,
              \<lparr>month = ''Jan'', num = cells [(''ActualGeneration'', 520)]\<rparr>]\<rparr>"

definition reversed_generation :: frame where
  "reversed_generation =
     \<lparr>columns = [''Month'', ''ActualGeneration''],
      rows = [\<lparr>month = ''Feb'', num = cells [(''ActualGeneration'', 520)]\<rparr>,
              \<lparr>month = ''Jan'', num = cells [(''ActualGeneration'', 500)]\<rparr>]\<rparr>"



definition feb_row :: merged_row where
  "feb_row = \<lparr>period = ''Feb'', irradiance = 160, actualGeneration = 520,
     expectedGeneration = 460.8, monthlyEfficiency = Fin (52000 / 460.8)\<rparr>"


definition combined_irradiance :: frame where
  "combined_irradiance =
     \<lparr>columns = [''Month'', ''Irradiance'', ''ActualGeneration''],
      rows = [\<lparr>month = ''Jan'', num = cells [(''Irradiance'', 150), (''ActualGeneration'', 500)]\<rparr>,
              \<lparr>month = ''Feb'', num = cells [(''Irradiance'', 160), (''ActualGeneration'', 520)]\<rparr>]\<rparr>"

definition month_only_generation :: frame where
  "month_only_generation =
     \<lparr>columns = [''Month''],
      rows = [\<lparr>month = ''Jan'', num = cells []\<rparr>, \<lparr>month = ''Feb'', num = cells []\<rparr>]\<rparr>"

definition misnamed_generation :: frame where
  "misnamed_generation =
     \<lparr>columns = [''Month'', ''Generation''],
      rows = [\<lparr>month = ''Jan'', num = cells [(''Generation'', 500)]\<rparr>,
              \<lparr>month = ''Feb'', num = cells [(''Generation'', 520)]\<rparr>]\<rparr>"

definition misnamed_irradiance :: frame where
  "misnamed_irradiance =
     \<lparr>columns = [''Month'', ''GHI''],
      rows = [\<lparr>month = ''Jan'', num = cells [(''GHI'', 150)]\<rparr>,
              \<lparr>month = ''Feb'', num = cells [(''GHI'', 160)]\<rparr>]\<rparr>"

section \<open>Basic facts about the handler\<close>

lemma generate_report_Report:
  "generate_report cfg (Some irr) (Some gen) = Report rep \<longleftrightarrow>
     ''Month'' \<in> set (columns irr) \<and> ''Month'' \<in> set (columns gen) \<and>
     (\<exists>merged. pd_merge irr gen = Inr merged \<and>
        ''Irradiance'' \<in> set (columns merged) \<and> ''ActualGeneration'' \<in> set (columns merged) \<and>
        rep = build_report cfg (map (derive_row cfg) (rows merged)))"
  by (auto simp: generate_report_def derive_def split: sum.splits)

lemma table_build_report [simp]: "table (build_report cfg df) = df"
  by (simp add: build_report_def)

lemma expectedGeneration_derive_row:
  "expectedGeneration (derive_row cfg r) =
     (efficiency cfg / 100) * real_of_int (num_panels cfg) * (length_m cfg * width_m cfg)
       * irradiance (derive_row cfg r)"
  by (simp add: derive_row_def ExpectedGeneration_def panel_area_def Let_def)

lemma rel_tol_refl: "a = b \<Longrightarrow> \<bar>a - b\<bar> \<le> 1 / 10 ^ 9 * \<bar>b :: real\<bar>"
  by simp

lemma scenario_outcome:
  "generate_report scenario_config (Some scenario_irradiance) (Some scenario_generation) =
     Report (build_report scenario_config
       [\<lparr>period = ''Jan'', irradiance = 150, actualGeneration = 500,
         expectedGeneration = 432, monthlyEfficiency = Fin (50000 / 432)\<rparr>,
        \<lparr>period = ''Feb'', irradiance = 160, actualGeneration = 520,
         expectedGeneration = 460.8, monthlyEfficiency = Fin (52000 / 460.8)\<rparr>])"
  by (simp add: generate_report_def pd_merge_def scenario_irradiance_def scenario_generation_def
      merged_names_def join_pairs_def merge_row_def cells_def Let_def derive_def
      derive_row_def ExpectedGeneration_def MonthlyEfficiency_def truediv_def
      scenario_config_def panel_area_def)

section \<open>Derivation of the expected generation\<close>

text \<open>
  C1. In every report that is produced, each row of the table has
  expectedGeneration = (efficiency / 100) * num_panels * (length * width) * irradiance,
  hence within the relative tolerance 1e-9 of it; for the scenario of the specification
  (irradiance 150 and 160, efficiency 18 percent, 10 panels of 1.6 m by 1.0 m) the expected
  generation of Jan is 432 and that of Feb is 460.8.
\<close>

theorem expected_generation_formula:
  "(\<forall>cfg irr gen rep r.
      generate_report cfg (Some irr) (Some gen) = Report rep \<longrightarrow> r \<in> set (table rep) \<longrightarrow>
        expectedGeneration r =
          (efficiency cfg / 100) * real_of_int (num_panels cfg) * (length_m cfg * width_m cfg)
            * irradiance r \<and>
        \<bar>expectedGeneration r -
          (efficiency cfg / 100) * real_of_int (num_panels cfg) * (length_m cfg * width_m cfg)
            * irradiance r\<bar>
        \<le> 1 / 10 ^ 9 *
          \<bar>(efficiency cfg / 100) * real_of_int (num_panels cfg) * (length_m cfg * width_m cfg)
            * irradiance r\<bar>) \<and>
   (\<exists>rep. generate_report scenario_config (Some scenario_irradiance) (Some scenario_generation)
            = Report rep \<and>
      map (\<lambda>r. (period r, expectedGeneration r)) (table rep) = [(''Jan'', 432), (''Feb'', 460.8)])"
proof (intro conjI allI impI)
  fix cfg irr gen rep r
  assume run: "generate_report cfg (Some irr) (Some gen) = Report rep"
    and r: "r \<in> set (table rep)"
  from run obtain merged :: frame where "rep = build_report cfg (map (derive_row cfg) (rows merged))"
    unfolding generate_report_Report by blast
  with r obtain x where rx: "r = derive_row cfg x"
    by auto
  show eq: "expectedGeneration r =
      (efficiency cfg / 100) * real_of_int (num_panels cfg) * (length_m cfg * width_m cfg)
        * irradiance r"
    unfolding rx by (rule expectedGeneration_derive_row)
  show "\<bar>expectedGeneration r -
          (efficiency cfg / 100) * real_of_int (num_panels cfg) * (length_m cfg * width_m cfg)
            * irradiance r\<bar>
        \<le> 1 / 10 ^ 9 *
          \<bar>(efficiency cfg / 100) * real_of_int (num_panels cfg) * (length_m cfg * width_m cfg)
            * irradiance r\<bar>"
    by (rule rel_tol_refl [OF eq])
next
  show "\<exists>rep. generate_report scenario_config (Some scenario_irradiance) (Some scenario_generation)
            = Report rep \<and>
      map (\<lambda>r. (period r, expectedGeneration r)) (table rep) = [(''Jan'', 432), (''Feb'', 460.8)]"
    unfolding scenario_outcome by simp
qed

theorem expected_generation_formula_witness:
  "generate_report scenario_config (Some scenario_irradiance) (Some scenario_generation) =
     Report (build_report scenario_config
       [\<lparr>period = ''Jan'', irradiance = 150, actualGeneration = 500,
         expectedGeneration = 432, monthlyEfficiency = Fin (50000 / 432)\<rparr>,
        \<lparr>period = ''Feb'', irradiance = 160, actualGeneration = 520,
         expectedGeneration = 460.8, monthlyEfficiency = Fin (52000 / 460.8)\<rparr>]) \<and>
   (432 :: real) = (18 / 100) * real_of_int 10 * (1.6 * 1) * 150"
proof -
  let ?jan = "\<lparr>period = ''Jan'', irradiance = 150, actualGeneration = 500,
         expectedGeneration = 432, monthlyEfficiency = Fin (50000 / 432)\<rparr>"
  let ?feb = "\<lparr>period = ''Feb'', irradiance = 160, actualGeneration = 520,
         expectedGeneration = 460.8, monthlyEfficiency = Fin (52000 / 460.8)\<rparr>"
  let ?rep = "build_report scenario_config [?jan, ?feb]"
  have run: "generate_report scenario_config (Some scenario_irradiance)
      (Some scenario_generation) = Report ?rep"
    by (rule scenario_outcome)
  have mem: "?jan \<in> set (table ?rep)"
    by simp
  from expected_generation_formula
  have "generate_report scenario_config (Some scenario_irradiance) (Some scenario_generation)
          = Report ?rep \<longrightarrow> ?jan \<in> set (table ?rep) \<longrightarrow>
        expectedGeneration ?jan =
          (efficiency scenario_config / 100) * real_of_int (num_panels scenario_config)
            * (length_m scenario_config * width_m scenario_config) * irradiance ?jan"
    by blast
  with run mem have "expectedGeneration ?jan =
          (efficiency scenario_config / 100) * real_of_int (num_panels scenario_config)
            * (length_m scenario_config * width_m scenario_config) * irradiance ?jan"
    by blast
  then have "(432 :: real) = (18 / 100) * real_of_int 10 * (1.6 * 1) * 150"
    by (simp only: scenario_config_def merged_row.simps config.simps)
  with run show ?thesis
    by (rule conjI)
qed

section \<open>The join\<close>

lemma period_derive_merge [simp]:
  "period (derive_row cfg (merge_row names l r)) = month l"
  by (simp add: derive_row_def merge_row_def Let_def)

lemma pd_merge_rows:
  "pd_merge irr gen = Inr merged \<Longrightarrow>
   map (\<lambda>x. period (derive_row cfg x)) (rows merged) =
     map (\<lambda>p. month (fst p)) (join_pairs (rows irr) (rows gen))"
  by (auto simp: pd_merge_def Let_def split: if_splits)

lemma report_periods:
  assumes "generate_report cfg (Some irr) (Some gen) = Report rep"
  shows "map period (table rep) = map (\<lambda>p. month (fst p)) (join_pairs (rows irr) (rows gen))"
proof -
  from assms obtain merged :: frame where m: "pd_merge irr gen = Inr merged"
    and rep: "rep = build_report cfg (map (derive_row cfg) (rows merged))"
    unfolding generate_report_Report by blast
  show ?thesis
    using pd_merge_rows [OF m, of cfg] by (simp add: rep comp_def)
qed

lemma join_pairs_Nil [simp]: "join_pairs [] rs = []"
  by (simp add: join_pairs_def)

lemma join_pairs_Cons:
  "join_pairs (l # ls) rs =
     map (\<lambda>r. (l, r)) (filter (\<lambda>r. month r = month l) rs) @ join_pairs ls rs"
  by (simp add: join_pairs_def)

lemma join_months:
  "map (\<lambda>p. month (fst p)) (join_pairs ls rs) =
     concat (map (\<lambda>l. replicate (length (filter (\<lambda>r. month r = month l) rs)) (month l)) ls)"
  by (induction ls) (simp_all add: join_pairs_Cons comp_def map_replicate_const)



lemma distinct_key_matches:
  "distinct (map month rs) \<Longrightarrow>
   length (filter (\<lambda>r. month r = k) rs) = (if k \<in> set (map month rs) then 1 else 0)"
  by (induction rs) auto


lemma join_count:
  "length (filter (\<lambda>p. month (fst p) = k) (join_pairs ls rs)) =
     length (filter (\<lambda>l. month l = k) ls) * length (filter (\<lambda>r. month r = k) rs)"
proof (induction ls)
  case Nil
  show ?case by simp
next
  case (Cons l ls)
  have "length (filter (\<lambda>p. month (fst p) = k)
          (map (\<lambda>r. (l, r)) (filter (\<lambda>r. month r = month l) rs)))
        = (if month l = k then length (filter (\<lambda>r. month r = k) rs) else 0)"
    by (simp add: filter_map comp_def)
  with Cons show ?case
    by (simp add: join_pairs_Cons)
qed

section \<open>Pagination of the table\<close>

lemma table_lines_simps [simp]:
  "table_lines [] = []"
  "table_lines (ds @ es) = table_lines ds @ table_lines es"
  "table_lines (d # ds) = table_line_of d @ table_lines ds"
  by (simp_all add: table_lines_def)

lemma table_ys_simps [simp]:
  "table_ys [] = []"
  "table_ys (ds @ es) = table_ys ds @ table_ys es"
  "table_ys (d # ds) = table_line_y d @ table_ys ds"
  by (simp_all add: table_ys_def)

lemma table_lines_heading [simp]: "table_lines (heading cfg df) = []"
  by (simp add: heading_def)

lemma table_ys_heading [simp]: "table_ys (heading cfg df) = []"
  by (simp add: heading_def)

lemma table_loop_lines:
  "concat (map table_lines (closed (table_loop rs c))) @ table_lines (page (table_loop rs c)) =
     concat (map table_lines (closed c)) @ table_lines (page c) @ rs"
  by (induction rs arbitrary: c) (simp_all add: Let_def)

lemma save_draw_images:
  "save (draw_images df c) = closed c @
     [page c @ [DrawImage (GenerationChart (generation_plot df)) 50 (y c - 400) 500 300,
                DrawImage (EfficiencyChart (efficiency_plot df)) 50 (y c - 400 - 400) 500 300]]"
  by (simp add: save_def draw_images_def)

lemma pdf_report_lines: "concat (map table_lines (pdf_report cfg df)) = df"
  using table_loop_lines [of df "\<lparr>closed = [], page = heading cfg df, y = height - 310\<rparr>"]
  by (simp add: pdf_report_def save_draw_images)

lemma length_pdf_report:
  "length (pdf_report cfg df) =
     Suc (length (closed (table_loop df \<lparr>closed = [], page = heading cfg df, y = height - 310\<rparr>)))"
  by (simp add: pdf_report_def save_draw_images)

lemma table_loop_append:
  "table_loop (rs @ ss) c = table_loop ss (table_loop rs c)"
  by (induction rs arbitrary: c) (simp_all add: Let_def)

lemma table_loop_closed_mono:
  "length (closed c) \<le> length (closed (table_loop rs c))"
proof (induction rs arbitrary: c)
  case Nil
  show ?case by simp
next
  case (Cons r rs)
  show ?case
  proof (cases "y c - 15 < 100")
    case True
    have "length (closed c) \<le> length (closed c @ [page c @ [DrawString 50 (y c) (TableLine r)]])"
      by simp
    also have "\<dots> \<le> length (closed (table_loop rs
        \<lparr>closed = closed c @ [page c @ [DrawString 50 (y c) (TableLine r)]], page = [],
         y = height - 50\<rparr>))"
      using Cons.IH [of "\<lparr>closed = closed c @ [page c @ [DrawString 50 (y c) (TableLine r)]],
        page = [], y = height - 50\<rparr>"] by simp
    finally show ?thesis using True by (simp add: Let_def)
  next
    case False
    then show ?thesis
      using Cons.IH [of "c\<lparr>page := page c @ [DrawString 50 (y c) (TableLine r)], y := y c - 15\<rparr>"]
      by (simp add: Let_def)
  qed
qed

lemma table_loop_no_break:
  "100 \<le> y c - 15 * real (length rs) \<Longrightarrow>
   closed (table_loop rs c) = closed c \<and> y (table_loop rs c) = y c - 15 * real (length rs)"
proof (induction rs arbitrary: c)
  case Nil
  show ?case by simp
next
  case (Cons r rs)
  then have nb: "\<not> y c - 15 < 100"
    by simp
  let ?c = "c\<lparr>page := page c @ [DrawString 50 (y c) (TableLine r)], y := y c - 15\<rparr>"
  have "100 \<le> y ?c - 15 * real (length rs)"
    using Cons.prems by simp
  from Cons.IH [OF this] nb show ?case
    by (simp add: Let_def)
qed

lemma height_value: "height = 106920 / 127"
  by (simp add: height_def)

lemma first_page_break:
  assumes "length rs = 29"
  shows "length (closed (table_loop rs \<lparr>closed = [], page = p, y = height - 310\<rparr>)) = 1"
proof -
  from assms obtain ss r where rs: "rs = ss @ [r]" and ss: "length ss = 28"
    by (cases rs rule: rev_cases) auto
  let ?c = "\<lparr>closed = [], page = p, y = height - 310\<rparr>"
  have "100 \<le> y ?c - 15 * real (length ss)"
    by (simp add: ss height_value)
  from table_loop_no_break [OF this]
  have c: "closed (table_loop ss ?c) = []" and yv: "y (table_loop ss ?c) = height - 310 - 420"
    by (simp_all add: ss)
  have lt: "y (table_loop ss ?c) < 115"
    unfolding yv by (simp add: height_value)
  show ?thesis
    by (simp add: rs table_loop_append Let_def c lt)
qed

lemma pdf_pages_count:
  "1 < length (pdf_report cfg df) \<longleftrightarrow> 29 \<le> length df"
proof
  assume "29 \<le> length df"
  then have l: "length (take 29 df) = 29"
    by simp
  let ?c = "\<lparr>closed = [], page = heading cfg df, y = height - 310\<rparr>"
  have "length (closed (table_loop (take 29 df) ?c)) = 1"
    by (rule first_page_break [OF l])
  moreover have "length (closed (table_loop (take 29 df) ?c))
      \<le> length (closed (table_loop (drop 29 df) (table_loop (take 29 df) ?c)))"
    by (rule table_loop_closed_mono)
  moreover have "table_loop (drop 29 df) (table_loop (take 29 df) ?c) = table_loop df ?c"
    by (simp add: table_loop_append [symmetric])
  ultimately have "1 \<le> length (closed (table_loop df ?c))"
    by simp
  then show "1 < length (pdf_report cfg df)"
    by (auto simp: length_pdf_report)
next
  assume many: "1 < length (pdf_report cfg df)"
  show "29 \<le> length df"
  proof (rule ccontr)
    assume "\<not> 29 \<le> length df"
    then have "length df \<le> 28" by simp
    then have "real (length df) \<le> 28" by simp
    then have "100 \<le> y \<lparr>closed = [], page = heading cfg df, y = height - 310\<rparr>
        - 15 * real (length df)"
      by (simp add: height_value)
    from table_loop_no_break [OF this] many show False
      by (simp add: length_pdf_report)
  qed
qed

lemma ladder_Nil [simp]: "ladder start []"
  by (simp add: ladder_def)

lemma ladder_snoc:
  "ladder start vs \<Longrightarrow> v = start - 15 * real (length vs) \<Longrightarrow> ladder start (vs @ [v])"
  by (simp add: ladder_def)

lemma pages_ok_snoc:
  "pages_ok first (ps @ [p]) \<longleftrightarrow>
     (if ps = [] then ladder first (table_ys p)
      else pages_ok first ps \<and> ladder (height - 50) (table_ys p))"
  by (cases ps) auto

lemma table_loop_cursor_inv:
  "cursor_inv first c \<Longrightarrow> cursor_inv first (table_loop rs c)"
proof (induction rs arbitrary: c)
  case Nil
  then show ?case by simp
next
  case (Cons r rs)
  let ?p = "page c @ [DrawString 50 (y c) (TableLine r)]"
  from Cons.prems have drawn: "pages_ok first (closed c @ [?p])"
    by (auto simp: cursor_inv_def pages_ok_snoc intro: ladder_snoc)
  show ?case
  proof (cases "y c - 15 < 100")
    case True
    have "pages_ok first ((closed c @ [?p]) @ [[]])"
      unfolding pages_ok_snoc [of first "closed c @ [?p]"] using drawn by simp
    then have "cursor_inv first \<lparr>closed = closed c @ [?p], page = [], y = height - 50\<rparr>"
      by (simp add: cursor_inv_def)
    from Cons.IH [OF this] True show ?thesis
      by (simp add: Let_def)
  next
    case False
    have "cursor_inv first (c\<lparr>page := ?p, y := y c - 15\<rparr>)"
      using drawn Cons.prems by (simp add: cursor_inv_def algebra_simps)
    from Cons.IH [OF this] False show ?thesis
      by (simp add: Let_def)
  qed
qed

lemma table_loop_margins:
  assumes "100 \<le> y c" and "y c \<le> height - 50"
    and "\<forall>p \<in> set (closed c). within_margins p" and "within_margins (page c)"
  shows "(\<forall>p \<in> set (closed (table_loop rs c)). within_margins p) \<and>
         within_margins (page (table_loop rs c))"
  using assms
proof (induction rs arbitrary: c)
  case Nil
  then show ?case by simp
next
  case (Cons r rs)
  let ?p = "page c @ [DrawString 50 (y c) (TableLine r)]"
  from Cons.prems have p: "within_margins ?p"
    by (auto simp: within_margins_def)
  show ?case
  proof (cases "y c - 15 < 100")
    case True
    have "(\<forall>p \<in> set (closed (table_loop rs \<lparr>closed = closed c @ [?p], page = [], y = height - 50\<rparr>)).
             within_margins p) \<and>
          within_margins (page (table_loop rs \<lparr>closed = closed c @ [?p], page = [], y = height - 50\<rparr>))"
      using Cons.prems p by (intro Cons.IH) (auto simp: within_margins_def height_value)
    with True show ?thesis
      by (simp add: Let_def)
  next
    case False
    have "(\<forall>p \<in> set (closed (table_loop rs (c\<lparr>page := ?p, y := y c - 15\<rparr>))). within_margins p) \<and>
          within_margins (page (table_loop rs (c\<lparr>page := ?p, y := y c - 15\<rparr>)))"
      using Cons.prems p False by (intro Cons.IH) auto
    with False show ?thesis
      by (simp add: Let_def)
  qed
qed

lemma pdf_report_margins: "\<forall>p \<in> set (pdf_report cfg df). within_margins p"
proof -
  let ?c = "\<lparr>closed = [], page = heading cfg df, y = height - 310\<rparr>"
  have "(\<forall>p \<in> set (closed (table_loop df ?c)). within_margins p) \<and>
         within_margins (page (table_loop df ?c))"
    by (rule table_loop_margins) (simp_all add: within_margins_def height_value)
  then show ?thesis
    by (auto simp: pdf_report_def save_draw_images within_margins_def)
qed

lemma pdf_report_pages_ok: "pages_ok (height - 310) (pdf_report cfg df)"
proof -
  let ?c = "\<lparr>closed = [], page = heading cfg df, y = height - 310\<rparr>"
  have "cursor_inv (height - 310) ?c"
    by (simp add: cursor_inv_def)
  then have "cursor_inv (height - 310) (table_loop df ?c)"
    by (rule table_loop_cursor_inv)
  then show ?thesis
    by (simp add: pdf_report_def save_draw_images cursor_inv_def pages_ok_snoc)
qed

lemma report_pdf_pages:
  "generate_report cfg (Some irr) (Some gen) = Report rep \<Longrightarrow>
   pdf_pages rep = pdf_report cfg (table rep)"
  by (auto simp: generate_report_Report build_report_def)

text \<open>
  C7. The table is paginated by the running cursor: every table line is drawn no lower
  than 100 points from the bottom of the page and no higher than \<open>height - 50\<close>, the
  lines of the first page step down by 15 points from below the heading and those of every
  later page from \<open>height - 50\<close>, where the cursor is reset after a page break. For
  every list of merged rows, the table lines read off the pages in order are exactly the
  rows, each one once, and the report has more than one page exactly when there are at
  least 29 rows (the 29th line is the last that fits the first page, and the break follows
  it). The pages of a produced report are \<open>pdf_report cfg (table rep)\<close>.
\<close>

theorem table_pagination:
  "concat (map table_lines (pdf_report cfg df)) = df \<and>
   (\<forall>p \<in> set (pdf_report cfg df). \<forall>v \<in> set (table_ys p). 100 \<le> v \<and> v \<le> height - 50) \<and>
   pages_ok (height - 310) (pdf_report cfg df) \<and>
   (1 < length (pdf_report cfg df) \<longleftrightarrow> 29 \<le> length df)"
proof (intro conjI)
  show "concat (map table_lines (pdf_report cfg df)) = df"
    by (rule pdf_report_lines)
  show "\<forall>p \<in> set (pdf_report cfg df). \<forall>v \<in> set (table_ys p). 100 \<le> v \<and> v \<le> height - 50"
    using pdf_report_margins [of cfg df] by (simp add: within_margins_def)
  show "pages_ok (height - 310) (pdf_report cfg df)"
    by (rule pdf_report_pages_ok)
  show "1 < length (pdf_report cfg df) \<longleftrightarrow> 29 \<le> length df"
    by (rule pdf_pages_count)
qed

lemma two_rows_page:
  "pdf_report scenario_config [jan_row, jan_row] =
     [heading scenario_config [jan_row, jan_row] @
      [DrawString 50 (height - 310) (TableLine jan_row),
       DrawString 50 (height - 325) (TableLine jan_row),
       DrawImage (GenerationChart (generation_plot [jan_row, jan_row])) 50 (height - 740) 500 300,
       DrawImage (EfficiencyChart (efficiency_plot [jan_row, jan_row])) 50 (height - 1140) 500 300]]"
  by (simp add: pdf_report_def save_draw_images Let_def height_value)

theorem table_pagination_witness:
  "table_ys (hd (pdf_report scenario_config [jan_row, jan_row])) = [height - 310, height - 325] \<and>
   hd (pdf_report scenario_config [jan_row, jan_row]) \<in> set (pdf_report scenario_config [jan_row, jan_row]) \<and>
   100 \<le> height - 310 \<and> height - 310 \<le> height - 50 \<and>
   \<not> 29 \<le> length [jan_row, jan_row] \<and>
   \<not> 1 < length (pdf_report scenario_config [jan_row, jan_row]) \<and>
   29 \<le> length (replicate 30 jan_row) \<and>
   1 < length (pdf_report scenario_config (replicate 30 jan_row)) \<and>
   concat (map table_lines (pdf_report scenario_config (replicate 30 jan_row))) = replicate 30 jan_row"
proof -
  let ?two = "pdf_report scenario_config [jan_row, jan_row]"
  have ys: "table_ys (hd ?two) = [height - 310, height - 325]"
    by (simp add: two_rows_page)
  have mem: "hd ?two \<in> set ?two"
    by (simp add: two_rows_page)
  have v: "height - 310 \<in> set (table_ys (hd ?two))"
    by (simp add: ys)
  note two = table_pagination [of scenario_config "[jan_row, jan_row]"]
  note many = table_pagination [of scenario_config "replicate 30 jan_row"]
  from two mem v have bounds: "100 \<le> height - 310 \<and> height - 310 \<le> height - 50"
    by blast
  from two have one_page: "\<not> 1 < length ?two"
    by simp
  from many have more: "1 < length (pdf_report scenario_config (replicate 30 jan_row))"
    by simp
  from many have all: "concat (map table_lines (pdf_report scenario_config (replicate 30 jan_row)))
      = replicate 30 jan_row"
    by blast
  show ?thesis
    using ys mem bounds one_page more all by simp
qed

section \<open>Inner join on the period\<close>

lemmas run_simps =
  generate_report_def pd_merge_def merged_names_def join_pairs_def merge_row_def cells_def
  Let_def derive_def derive_row_def ExpectedGeneration_def MonthlyEfficiency_def truediv_def
  panel_area_def





section \<open>Repeated period labels\<close>

lemma repeated_both_outcome:
  "generate_report scenario_config (Some repeated_irradiance) (Some repeated_generation) =
     Report (build_report scenario_config
       [\<lparr>period = ''Jan'', irradiance = 150, actualGeneration = 500,
         expectedGeneration = 432, monthlyEfficiency = Fin (50000 / 432)\<rparr>,
        \<lparr>period = ''Jan'', irradiance = 150, actualGeneration = 520,
         expectedGeneration = 432, monthlyEfficiency = Fin (52000 / 432)\<rparr>,
        \<lparr>period = ''Jan'', irradiance = 160, actualGeneration = 500,
         expectedGeneration = 460.8, monthlyEfficiency = Fin (50000 / 460.8)\<rparr>,
        \<lparr>period = ''Jan'', irradiance = 160, actualGeneration = 520,
         expectedGeneration = 460.8, monthlyEfficiency = Fin (52000 / 460.8)\<rparr>])"
  by (simp add: run_simps repeated_irradiance_def repeated_generation_def scenario_config_def)

lemma report_is_build:
  "generate_report cfg (Some irr) (Some gen) = Report rep \<Longrightarrow> rep = build_report cfg (table rep)"
  by (auto simp: generate_report_Report)

lemma count_map_period:
  "length (filter (\<lambda>r. period r = k) df) = length (filter (\<lambda>m. m = k) (map period df))"
  by (induction df) simp_all

lemma report_period_count:
  assumes "generate_report cfg (Some irr) (Some gen) = Report rep"
  shows "length (filter (\<lambda>r. period r = k) (table rep)) =
     length (filter (\<lambda>l. month l = k) (rows irr)) * length (filter (\<lambda>g. month g = k) (rows gen))"
proof -
  have "length (filter (\<lambda>r. period r = k) (table rep)) =
      length (filter (\<lambda>m. m = k) (map (\<lambda>p. month (fst p)) (join_pairs (rows irr) (rows gen))))"
    unfolding count_map_period report_periods [OF assms] ..
  also have "\<dots> = length (filter (\<lambda>p. month (fst p) = k) (join_pairs (rows irr) (rows gen)))"
    by (induction "join_pairs (rows irr) (rows gen)") (simp_all add: filter_map comp_def)
  finally show ?thesis
    by (simp add: join_count)
qed

text \<open>
  C10. A period label that is repeated in an input table is neither rejected nor
  deduplicated: the merged table has one row for every pair of an irradiance row and a
  generation row with that label (the product of the two multiplicities), and the period
  appears that many times among the bars of the generation chart, among the points of
  the efficiency chart and among the table lines of the PDF.
\<close>

theorem repeated_period_cross_product:
  assumes "generate_report cfg (Some irr) (Some gen) = Report rep"
  shows "length (filter (\<lambda>r. period r = k) (table rep)) =
           length (filter (\<lambda>l. month l = k) (rows irr)) *
           length (filter (\<lambda>g. month g = k) (rows gen)) \<and>
         length (filter (\<lambda>b. bar_x b = k) (expected_bars (generation_fig rep))) =
           length (filter (\<lambda>r. period r = k) (table rep)) \<and>
         length (filter (\<lambda>b. bar_x b = k) (actual_bars (generation_fig rep))) =
           length (filter (\<lambda>r. period r = k) (table rep)) \<and>
         length (filter (\<lambda>p. fst p = k) (efficiency_fig rep)) =
           length (filter (\<lambda>r. period r = k) (table rep)) \<and>
         length (filter (\<lambda>r. period r = k) (concat (map table_lines (pdf_pages rep)))) =
           length (filter (\<lambda>r. period r = k) (table rep))"
proof -
  note rep = report_is_build [OF assms]
  have figs: "generation_fig rep = generation_plot (table rep)"
    "efficiency_fig rep = efficiency_plot (table rep)"
    by (subst rep, simp add: build_report_def)+
  have pdf: "concat (map table_lines (pdf_pages rep)) = table rep"
    by (simp add: report_pdf_pages [OF assms] pdf_report_lines)
  show ?thesis
    by (simp add: report_period_count [OF assms] figs pdf generation_plot_def
        efficiency_plot_def filter_map comp_def)
qed

theorem repeated_period_cross_product_witness:
  "generate_report scenario_config (Some repeated_irradiance) (Some repeated_generation) =
     Report (build_report scenario_config
       [\<lparr>period = ''Jan'', irradiance = 150, actualGeneration = 500,
         expectedGeneration = 432, monthlyEfficiency = Fin (50000 / 432)\<rparr>,
        \<lparr>period = ''Jan'', irradiance = 150, actualGeneration = 520,
         expectedGeneration = 432, monthlyEfficiency = Fin (52000 / 432)\<rparr>,
        \<lparr>period = ''Jan'', irradiance = 160, actualGeneration = 500,
         expectedGeneration = 460.8, monthlyEfficiency = Fin (50000 / 460.8)\<rparr>,
        \<lparr>period = ''Jan'', irradiance = 160, actualGeneration = 520,
         expectedGeneration = 460.8, monthlyEfficiency = Fin (52000 / 460.8)\<rparr>]) \<and>
   length (filter (\<lambda>l. month l = ''Jan'') (rows repeated_irradiance)) = 2 \<and>
   length (filter (\<lambda>g. month g = ''Jan'') (rows repeated_generation)) = 2 \<and>
   length (filter (\<lambda>r. period r = ''Jan'') (table (build_report scenario_config
       [\<lparr>period = ''Jan'', irradiance = 150, actualGeneration = 500,
         expectedGeneration = 432, monthlyEfficiency = Fin (50000 / 432)\<rparr>,
        \<lparr>period = ''Jan'', irradiance = 150, actualGeneration = 520,
         expectedGeneration = 432, monthlyEfficiency = Fin (52000 / 432)\<rparr>,
        \<lparr>period = ''Jan'', irradiance = 160, actualGeneration = 500,
         expectedGeneration = 460.8, monthlyEfficiency = Fin (50000 / 460.8)\<rparr>,
        \<lparr>period = ''Jan'', irradiance = 160, actualGeneration = 520,
         expectedGeneration = 460.8, monthlyEfficiency = Fin (52000 / 460.8)\<rparr>]))) = 2 * 2"
proof -
  have l: "length (filter (\<lambda>l. month l = ''Jan'') (rows repeated_irradiance)) = 2"
    by (simp add: repeated_irradiance_def)
  have g: "length (filter (\<lambda>g. month g = ''Jan'') (rows repeated_generation)) = 2"
    by (simp add: repeated_generation_def)
  note product = repeated_period_cross_product [OF repeated_both_outcome, of "''Jan''",
      THEN conjunct1]
  show ?thesis
    using repeated_both_outcome l g product [unfolded l g] by blast
qed

section \<open>Row order\<close>

lemma report_figs:
  assumes "generate_report cfg (Some irr) (Some gen) = Report rep"
  shows "generation_fig rep = generation_plot (table rep)"
    and "efficiency_fig rep = efficiency_plot (table rep)"
    and "totalExpected rep = total_expected (table rep)"
    and "totalActual rep = total_actual (table rep)"
    and "overallEfficiency rep = overall_eff (table rep)"
  by (subst report_is_build [OF assms], simp add: build_report_def)+

lemma matches_distinct:
  "distinct (map month rs) \<Longrightarrow>
   concat (map (\<lambda>l. replicate (length (filter (\<lambda>r. month r = month l) rs)) (month l)) ls) =
     filter (\<lambda>m. m \<in> set (map month rs)) (map month ls)"
  by (induction ls) (simp_all add: distinct_key_matches)

text \<open>
  C8. The merged rows follow the irradiance table's row order: their periods are the
  irradiance table's periods in order, each repeated once per generation row of the same
  period (so, when the generation table repeats no period, the irradiance periods that
  the generation table also has, in the irradiance table's order). Both series of bars
  of the generation chart, the points of the efficiency chart and the table lines of the
  PDF read across its pages follow the merged rows in exactly that order.
\<close>

theorem row_order_preserved:
  assumes "generate_report cfg (Some irr) (Some gen) = Report rep"
  shows "map period (table rep) =
           concat (map (\<lambda>l. replicate (length (filter (\<lambda>g. month g = month l) (rows gen)))
                               (month l)) (rows irr)) \<and>
         (distinct (map month (rows gen)) \<longrightarrow>
            map period (table rep) =
              filter (\<lambda>m. m \<in> set (map month (rows gen))) (map month (rows irr))) \<and>
         map (\<lambda>b. (bar_x b, bar_height b)) (expected_bars (generation_fig rep)) =
           map (\<lambda>r. (period r, expectedGeneration r)) (table rep) \<and>
         map (\<lambda>b. (bar_x b, bar_height b)) (actual_bars (generation_fig rep)) =
           map (\<lambda>r. (period r, actualGeneration r)) (table rep) \<and>
         efficiency_fig rep = map (\<lambda>r. (period r, monthlyEfficiency r)) (table rep) \<and>
         concat (map table_lines (pdf_pages rep)) = table rep"
proof (intro conjI impI)
  show order: "map period (table rep) =
      concat (map (\<lambda>l. replicate (length (filter (\<lambda>g. month g = month l) (rows gen)))
                               (month l)) (rows irr))"
    unfolding report_periods [OF assms] by (rule join_months)
  show "map period (table rep) =
      filter (\<lambda>m. m \<in> set (map month (rows gen))) (map month (rows irr))"
    if "distinct (map month (rows gen))"
    unfolding order by (rule matches_distinct [OF that])
  show "map (\<lambda>b. (bar_x b, bar_height b)) (expected_bars (generation_fig rep)) =
      map (\<lambda>r. (period r, expectedGeneration r)) (table rep)"
    by (simp add: report_figs [OF assms] generation_plot_def comp_def)
  show "map (\<lambda>b. (bar_x b, bar_height b)) (actual_bars (generation_fig rep)) =
      map (\<lambda>r. (period r, actualGeneration r)) (table rep)"
    by (simp add: report_figs [OF assms] generation_plot_def comp_def)
  show "efficiency_fig rep = map (\<lambda>r. (period r, monthlyEfficiency r)) (table rep)"
    by (simp add: report_figs [OF assms] efficiency_plot_def)
  show "concat (map table_lines (pdf_pages rep)) = table rep"
    by (simp add: report_pdf_pages [OF assms] pdf_report_lines)
qed

lemma reversed_outcome:
  "generate_report scenario_config (Some scenario_irradiance) (Some reversed_generation) =
     Report (build_report scenario_config
       [\<lparr>period = ''Jan'', irradiance = 150, actualGeneration = 500,
         expectedGeneration = 432, monthlyEfficiency = Fin (50000 / 432)\<rparr>,
        \<lparr>period = ''Feb'', irradiance = 160, actualGeneration = 520,
         expectedGeneration = 460.8, monthlyEfficiency = Fin (52000 / 460.8)\<rparr>])"
  by (simp add: run_simps scenario_irradiance_def reversed_generation_def scenario_config_def)

theorem row_order_preserved_witness:
  "generate_report scenario_config (Some scenario_irradiance) (Some reversed_generation) =
     Report (build_report scenario_config
       [\<lparr>period = ''Jan'', irradiance = 150, actualGeneration = 500,
         expectedGeneration = 432, monthlyEfficiency = Fin (50000 / 432)\<rparr>,
        \<lparr>period = ''Feb'', irradiance = 160, actualGeneration = 520,
         expectedGeneration = 460.8, monthlyEfficiency = Fin (52000 / 460.8)\<rparr>]) \<and>
   distinct (map month (rows reversed_generation)) \<and>
   map month (rows reversed_generation) = [''Feb'', ''Jan''] \<and>
   filter (\<lambda>m. m \<in> set (map month (rows reversed_generation)))
     (map month (rows scenario_irradiance)) = [''Jan'', ''Feb'']"
proof -
  have d: "distinct (map month (rows reversed_generation))"
    and g: "map month (rows reversed_generation) = [''Feb'', ''Jan'']"
    by (simp_all add: reversed_generation_def)
  from row_order_preserved [OF reversed_outcome] d
  have "map period (table (build_report scenario_config
       [\<lparr>period = ''Jan'', irradiance = 150, actualGeneration = 500,
         expectedGeneration = 432, monthlyEfficiency = Fin (50000 / 432)\<rparr>,
        \<lparr>period = ''Feb'', irradiance = 160, actualGeneration = 520,
         expectedGeneration = 460.8, monthlyEfficiency = Fin (52000 / 460.8)\<rparr>])) =
      filter (\<lambda>m. m \<in> set (map month (rows reversed_generation)))
        (map month (rows scenario_irradiance))"
    by blast
  then have "filter (\<lambda>m. m \<in> set (map month (rows reversed_generation)))
     (map month (rows scenario_irradiance)) = [''Jan'', ''Feb'']"
    by simp
  with reversed_outcome d g show ?thesis
    by blast
qed

section \<open>Totals and determinism\<close>







section \<open>Zero expected generation\<close>








section \<open>Empty join\<close>







section \<open>Missing columns\<close>

lemma combined_outcome:
  "generate_report scenario_config (Some combined_irradiance) (Some month_only_generation) =
     Report (build_report scenario_config [jan_row, feb_row])"
  by (simp add: run_simps combined_irradiance_def month_only_generation_def scenario_config_def
      jan_row_def feb_row_def)

text \<open>
  C5, as stated, fails: the generation table has no ActualGeneration column, the
  irradiance table has one, the merged table therefore has it, and the report is
  produced.
\<close>

theorem missing_column_counterexample:
  "''ActualGeneration'' \<notin> set (columns month_only_generation) \<and>
   generate_report scenario_config (Some combined_irradiance) (Some month_only_generation) =
     Report (build_report scenario_config [jan_row, feb_row])"
proof
  show "''ActualGeneration'' \<notin> set (columns month_only_generation)"
    by (simp add: month_only_generation_def)
  show "generate_report scenario_config (Some combined_irradiance) (Some month_only_generation) =
     Report (build_report scenario_config [jan_row, feb_row])"
    by (rule combined_outcome)
qed

lemma merged_names_plain:
  assumes "\<And>c. n \<noteq> c @ ''_x''" and "\<And>c. n \<noteq> c @ ''_y''"
  shows "n \<in> set (map fst (merged_names lc rc)) \<longleftrightarrow>
     (n \<in> set lc \<and> (n = ''Month'' \<or> n \<notin> set rc)) \<or>
     (n \<in> set rc \<and> n \<noteq> ''Month'' \<and> n \<notin> set lc)"
  using assms by (auto simp: merged_names_def image_iff)

lemma Irradiance_merged:
  "''Irradiance'' \<in> set (map fst (merged_names lc rc)) \<longleftrightarrow>
     (''Irradiance'' \<in> set lc) \<noteq> (''Irradiance'' \<in> set rc)"
  by (subst merged_names_plain) (auto dest: arg_cong [where f = last])

lemma ActualGeneration_merged:
  "''ActualGeneration'' \<in> set (map fst (merged_names lc rc)) \<longleftrightarrow>
     (''ActualGeneration'' \<in> set lc) \<noteq> (''ActualGeneration'' \<in> set rc)"
  by (subst merged_names_plain) (auto dest: arg_cong [where f = last])

text \<open>
  C5, amended. Only the Month column is checked before the merge (lines 42-43). When
  both tables have a Month column and the merge raises no error: if Irradiance is a column
  of neither table (or of both, where the merge renames it with the suffixes _x and _y),
  the run stops at line 46 with a KeyError naming Irradiance; if Irradiance is a column of
  exactly one table and ActualGeneration of neither (or of both), the run stops at line 47
  with a KeyError naming ActualGeneration. The handler of line 164 reports the error and
  no report is produced.
\<close>

theorem missing_column_key_error:
  assumes "''Month'' \<in> set (columns irr)" and "''Month'' \<in> set (columns gen)"
    and "distinct (map fst (merged_names (columns irr) (columns gen)))"
  shows "((''Irradiance'' \<in> set (columns irr)) = (''Irradiance'' \<in> set (columns gen)) \<longrightarrow>
            generate_report cfg (Some irr) (Some gen) =
              ProcessingError (KeyError ''Irradiance'')) \<and>
         ((''Irradiance'' \<in> set (columns irr)) \<noteq> (''Irradiance'' \<in> set (columns gen)) \<and>
          (''ActualGeneration'' \<in> set (columns irr)) =
            (''ActualGeneration'' \<in> set (columns gen)) \<longrightarrow>
            generate_report cfg (Some irr) (Some gen) =
              ProcessingError (KeyError ''ActualGeneration''))"
proof (intro conjI impI)
  let ?names = "merged_names (columns irr) (columns gen)"
  have run: "generate_report cfg (Some irr) (Some gen) =
      (if ''Irradiance'' \<notin> set (map fst ?names) then ProcessingError (KeyError ''Irradiance'')
       else if ''ActualGeneration'' \<notin> set (map fst ?names)
         then ProcessingError (KeyError ''ActualGeneration'')
       else Report (build_report cfg (map (derive_row cfg)
         (map (\<lambda>(l, r). merge_row ?names l r) (join_pairs (rows irr) (rows gen))))))"
    using assms by (simp add: generate_report_def pd_merge_def derive_def Let_def)
  show "generate_report cfg (Some irr) (Some gen) = ProcessingError (KeyError ''Irradiance'')"
    if "(''Irradiance'' \<in> set (columns irr)) = (''Irradiance'' \<in> set (columns gen))"
    using that unfolding run Irradiance_merged by simp
  show "generate_report cfg (Some irr) (Some gen) =
      ProcessingError (KeyError ''ActualGeneration'')"
    if "(''Irradiance'' \<in> set (columns irr)) \<noteq> (''Irradiance'' \<in> set (columns gen)) \<and>
        (''ActualGeneration'' \<in> set (columns irr)) =
          (''ActualGeneration'' \<in> set (columns gen))"
    using that unfolding run Irradiance_merged ActualGeneration_merged by simp
qed

theorem missing_column_key_error_witness:
  "''ActualGeneration'' \<notin> set (columns misnamed_generation) \<and>
   generate_report scenario_config (Some scenario_irradiance) (Some misnamed_generation) =
     ProcessingError (KeyError ''ActualGeneration'') \<and>
   ''Irradiance'' \<notin> set (columns misnamed_irradiance) \<and>
   generate_report scenario_config (Some misnamed_irradiance) (Some scenario_generation) =
     ProcessingError (KeyError ''Irradiance'')"
proof -
  have g1: "''Month'' \<in> set (columns scenario_irradiance)"
    and g2: "''Month'' \<in> set (columns misnamed_generation)"
    and g3: "distinct (map fst
      (merged_names (columns scenario_irradiance) (columns misnamed_generation)))"
    and g4: "(''Irradiance'' \<in> set (columns scenario_irradiance)) \<noteq>
      (''Irradiance'' \<in> set (columns misnamed_generation))"
    and g5: "(''ActualGeneration'' \<in> set (columns scenario_irradiance)) =
      (''ActualGeneration'' \<in> set (columns misnamed_generation))"
    and g6: "''ActualGeneration'' \<notin> set (columns misnamed_generation)"
    by (simp_all add: scenario_irradiance_def misnamed_generation_def merged_names_def)
  have i1: "''Month'' \<in> set (columns misnamed_irradiance)"
    and i2: "''Month'' \<in> set (columns scenario_generation)"
    and i3: "distinct (map fst
      (merged_names (columns misnamed_irradiance) (columns scenario_generation)))"
    and i4: "(''Irradiance'' \<in> set (columns misnamed_irradiance)) =
      (''Irradiance'' \<in> set (columns scenario_generation))"
    and i5: "''Irradiance'' \<notin> set (columns misnamed_irradiance)"
    by (simp_all add: misnamed_irradiance_def scenario_generation_def merged_names_def)
  from missing_column_key_error [OF g1 g2 g3, of scenario_config] g4 g5
  have a: "generate_report scenario_config (Some scenario_irradiance) (Some misnamed_generation) =
     ProcessingError (KeyError ''ActualGeneration'')"
    by blast
  from missing_column_key_error [OF i1 i2 i3, of scenario_config] i4
  have b: "generate_report scenario_config (Some misnamed_irradiance) (Some scenario_generation) =
     ProcessingError (KeyError ''Irradiance'')"
    by blast
  from g6 a i5 b show ?thesis
    by blast
qed

end
